theory Spec2Isabelle
  imports Complex_Main
begin

unbundle bit_operations_syntax

section \<open>Python primitives used by gip.py\<close>

text \<open>
  The program works on Python's unbounded integers (\<open>int\<close>) and on lists of them.
  The two operations of the program that can raise are list indexing (IndexError) and a
  shift by a negative count (ValueError); unpacking the \<open>None\<close> that \<open>parse_input\<close>
  returns for a report that is not an INPUT report would be a TypeError.
\<close>

datatype py_error = IndexError | ValueError | TypeError

definition bind_err :: "py_error + 'a \<Rightarrow> ('a \<Rightarrow> py_error + 'b) \<Rightarrow> py_error + 'b" where
  "bind_err r f = (case r of Inl e \<Rightarrow> Inl e | Inr x \<Rightarrow> f x)"

definition py_getitem :: "'a list \<Rightarrow> int \<Rightarrow> py_error + 'a" where
  \<comment> \<open>the subscript \<open>xs[i]\<close>; \<open>xs[-1]\<close> is the last element\<close>
  "py_getitem xs i =
     (if 0 \<le> i \<and> i < int (length xs) then Inr (xs ! nat i)
      else if i < 0 \<and> - int (length xs) \<le> i then Inr (xs ! nat (int (length xs) + i))
      else Inl IndexError)"

definition py_lshift :: "int \<Rightarrow> int \<Rightarrow> py_error + int" where
  \<comment> \<open>\<open>a << b\<close>: a negative shift count raises ValueError.\<close>
  "py_lshift a b = (if b < 0 then Inl ValueError else Inr (push_bit (nat b) a))"

section \<open>Sequence counter (class Seq)\<close>

record Seq =
  v_value :: int  \<comment> \<open>the attribute \<open>_value\<close>\<close>

definition Seq_init :: Seq where
  "Seq_init = \<lparr>v_value = 0\<rparr>"

definition Seq_value :: "Seq \<Rightarrow> int \<times> Seq" where
  \<comment> \<open>the property \<open>value\<close>: returns the counter, then increments it\<close>
  "Seq_value s = (let r = v_value s in (r, s\<lparr>v_value := (v_value s + 1) AND 0xff\<rparr>))"

definition Seq_current_value :: "Seq \<Rightarrow> int \<times> Seq" where
  \<comment> \<open>the property \<open>current_value\<close>: returns the counter and assigns nothing\<close>
  "Seq_current_value s = (v_value s, s)"

definition Seq_int :: "Seq \<Rightarrow> int \<times> Seq" where
  \<comment> \<open>\<open>__int__\<close>\<close>
  "Seq_int s = Seq_value s"

text \<open>\<open>n\<close> successive reads of the property \<open>value\<close>: the values returned, in order,
  and the counter afterwards.\<close>

fun Seq_value_calls :: "nat \<Rightarrow> Seq \<Rightarrow> int list \<times> Seq" where
  "Seq_value_calls 0 s = ([], s)"
| "Seq_value_calls (Suc n) s =
     (let (r, s') = Seq_value s; (rs, s'') = Seq_value_calls n s' in (r # rs, s''))"

section \<open>Packet construction\<close>

datatype GipCmd = Identify | Power | Authenticate | Rumble | LED

fun GipCmd_value :: "GipCmd \<Rightarrow> int" where
  "GipCmd_value Identify = 0x04"
| "GipCmd_value Power = 0x05"
| "GipCmd_value Authenticate = 0x06"
| "GipCmd_value Rumble = 0x09"
| "GipCmd_value LED = 0x0a"

definition make_gip_packet :: "GipCmd \<Rightarrow> int list \<Rightarrow> Seq \<Rightarrow> int list \<times> Seq" where
  "make_gip_packet cmd args seq =
     (let (s, seq') = Seq_int seq;
          data = [GipCmd_value cmd, 0x20, s, -1] @ args;
          data = data[3 := int (length data) - 4]
      in (data, seq'))"

definition GIP_MOTOR_ALL :: int where
  "GIP_MOTOR_ALL = 0xf"

text \<open>The keyword parameters \<open>on\<close>, \<open>off\<close> and \<open>repeat\<close> default to \<open>0xff\<close>, \<open>0x00\<close>
  and \<open>0xff\<close>; a caller of the model passes them explicitly.\<close>

definition make_gip_rumble_packet ::
  "int \<Rightarrow> int \<Rightarrow> int \<Rightarrow> int \<Rightarrow> Seq \<Rightarrow> int \<Rightarrow> int \<Rightarrow> int \<Rightarrow> int list \<times> Seq" where
  "make_gip_rumble_packet lt rt la ra seq on off repeat =
     (let (s, seq') = Seq_int seq;
          data = [GipCmd_value Rumble, 0x00, s, -1, 0x00, GIP_MOTOR_ALL,
                  lt, rt, la, ra, on, off, repeat];
          data = data[3 := int (length data) - 4]
      in (data, seq'))"

section \<open>Report decoding\<close>

definition to_signed_16 :: "int \<Rightarrow> int" where
  "to_signed_16 n = (let n = n AND 0xffff in n OR (- (n AND 0x8000)))"

definition le16 :: "int list \<Rightarrow> py_error + int" where
  "le16 val =
     bind_err (py_getitem val 0) (\<lambda>v0.
     bind_err (py_getitem val 1) (\<lambda>v1.
     bind_err (py_lshift v1 8) (\<lambda>hi.
     Inr (to_signed_16 (v0 OR hi)))))"

definition get_bit :: "int list \<Rightarrow> int \<Rightarrow> int \<Rightarrow> py_error + bool" where
  \<comment> \<open>the parameter \<open>bit\<close> is written \<open>bitno\<close>\<close>
  "get_bit array byte bitno =
     (if byte > int (length array) then Inr False
      else bind_err (py_getitem array byte) (\<lambda>b.
           bind_err (py_lshift 1 bitno) (\<lambda>m.
           Inr ((b AND m) > 0))))"

subsection \<open>Display strings\<close>

definition active :: "string \<Rightarrow> string" where
  \<comment> \<open>\<open>"\033[91m{text}\033[0m"\<close>\<close>
  "active text = CHR 0x1B # ''[91m'' @ text @ CHR 0x1B # ''[0m''"

definition lower_char :: "char \<Rightarrow> char" where
  "lower_char c =
     (let n = (of_char c :: nat) in if 65 \<le> n \<and> n \<le> 90 then char_of (n + 32) else c)"

definition lower :: "string \<Rightarrow> string" where
  \<comment> \<open>\<open>str.lower()\<close> on the ASCII names the program passes\<close>
  "lower name = map lower_char name"

definition add_if :: "string list \<Rightarrow> string \<Rightarrow> bool \<Rightarrow> string list" where
  "add_if to name cond = (if cond then to @ [active name] else to @ [lower name])"

definition digit_char :: "nat \<Rightarrow> char" where
  "digit_char d = ''0123456789abcdef'' ! d"

fun dec_digits :: "nat \<Rightarrow> string" where
  "dec_digits n =
     (if n < 10 then [digit_char n] else dec_digits (n div 10) @ [digit_char (n mod 10)])"

fun hex_digits :: "nat \<Rightarrow> string" where
  "hex_digits n =
     (if n < 16 then [digit_char n] else hex_digits (n div 16) @ [digit_char (n mod 16)])"

declare dec_digits.simps [simp del]
declare hex_digits.simps [simp del]

definition format_d :: "string \<Rightarrow> int \<Rightarrow> string" where
  \<comment> \<open>\<open>"<prefix>%d" % v\<close>\<close>
  "format_d prefix v =
     prefix @ (if v < 0 then ''-'' @ dec_digits (nat (- v)) else dec_digits (nat v))"

definition format_p05x :: "string \<Rightarrow> int \<Rightarrow> string" where
  \<comment> \<open>\<open>"<prefix>%+05x" % v\<close>: always a sign, zero-padded to five characters with it\<close>
  "format_p05x prefix v =
     (let ds = hex_digits (nat \<bar>v\<bar>)
      in prefix @ [if v < 0 then CHR ''-'' else CHR ''+''] @ replicate (4 - length ds) CHR ''0'' @ ds)"

definition add_val :: "string list \<Rightarrow> (int \<Rightarrow> string) \<Rightarrow> int \<Rightarrow> string list \<times> int" where
  \<comment> \<open>the format string is passed as the function that applies it\<close>
  "add_val to fmt v = (to @ [fmt v], v)"

subsection \<open>parse_input\<close>

type_synonym axes = "int \<times> int \<times> int \<times> int \<times> int \<times> int"

definition add_bit ::
  "string list \<Rightarrow> string \<Rightarrow> int list \<Rightarrow> int \<Rightarrow> int \<Rightarrow> py_error + string list" where
  \<comment> \<open>one line \<open>add_if(state, name, get_bit(data, byte, bit))\<close>\<close>
  "add_bit state name data byte bitno =
     bind_err (get_bit data byte bitno) (\<lambda>c. Inr (add_if state name c))"

definition add_le16 ::
  "string list \<Rightarrow> string \<Rightarrow> int list \<Rightarrow> nat \<Rightarrow> py_error + string list \<times> int" where
  \<comment> \<open>one line \<open>add_val(numbers, "<name>%+05x", le16(data[k:]))\<close>\<close>
  "add_le16 numbers prefix data k =
     bind_err (le16 (drop k data)) (\<lambda>v. Inr (add_val numbers (format_p05x prefix) v))"

definition parse_buttons :: "int list \<Rightarrow> py_error + string list" where
  "parse_buttons data =
     bind_err (add_bit [] ''SELECT'' data 4 3) (\<lambda>state.
     bind_err (add_bit state ''START'' data 4 2) (\<lambda>state.
     bind_err (add_bit state ''REC'' data 22 0) (\<lambda>state.
     bind_err (add_bit state ''A'' data 4 4) (\<lambda>state.
     bind_err (add_bit state ''B'' data 4 5) (\<lambda>state.
     bind_err (add_bit state ''X'' data 4 6) (\<lambda>state.
     bind_err (add_bit state ''Y'' data 4 7) (\<lambda>state.
     bind_err (add_bit state ''L'' data 5 2) (\<lambda>state.
     bind_err (add_bit state ''R'' data 5 3) (\<lambda>state.
     bind_err (add_bit state ''U'' data 5 0) (\<lambda>state.
     bind_err (add_bit state ''D'' data 5 1) (\<lambda>state.
     bind_err (add_bit state ''LB'' data 5 4) (\<lambda>state.
     bind_err (add_bit state ''RB'' data 5 5) (\<lambda>state.
     bind_err (add_bit state ''SL'' data 5 6) (\<lambda>state.
     add_bit state ''SR'' data 5 7))))))))))))))"

definition parse_numbers :: "int list \<Rightarrow> py_error + string list \<times> axes" where
  "parse_numbers data =
     bind_err (py_getitem data 34) (\<lambda>pro.
     let (numbers, _) = add_val [] (format_d ''PRO:'') pro in
     bind_err (add_le16 numbers ''LT:'' data 6) (\<lambda>(numbers, lt).
     bind_err (add_le16 numbers ''RT:'' data 8) (\<lambda>(numbers, rt).
     bind_err (add_le16 numbers ''LX:'' data 10) (\<lambda>(numbers, lx).
     bind_err (add_le16 numbers ''LY:'' data 12) (\<lambda>(numbers, ly).
     bind_err (add_le16 numbers ''RX:'' data 14) (\<lambda>(numbers, rx).
     bind_err (add_le16 numbers ''RY:'' data 16) (\<lambda>(numbers, ry).
     Inr (numbers, (lx, ly, rx, ry, lt, rt)))))))))"

definition parse_input :: "int list \<Rightarrow> py_error + string list \<times> string list \<times> axes option" where
  "parse_input data =
     bind_err (py_getitem data 0) (\<lambda>d0.
     if d0 \<noteq> 0x20 then Inr ([], [], None)
     else
       bind_err (parse_buttons data) (\<lambda>state.
       bind_err (parse_numbers data) (\<lambda>(numbers, values).
       Inr (state, numbers, Some values))))"

section \<open>The polling loop of main\<close>

text \<open>
  The state of the loop: the variables \<open>store_buttons\<close>, \<open>store_system\<close>,
  \<open>store_numbers\<close>, \<open>store_rumble\<close>, \<open>exit_start\<close> and \<open>seq\<close> of \<open>main\<close>, and the
  packets passed to \<open>epo.write\<close> so far. \<open>time.time()\<close> is a parameter of each step.
  Printing is not part of the model.
\<close>

record session =
  store_buttons :: "string list"
  store_system :: string
  store_numbers :: "string list"
  store_rumble :: "int list"
  exit_start :: real
  seq :: Seq
  epo_written :: "int list list"

datatype read_result = USBTimeoutError | Data "int list"

definition epo_write :: "int list \<Rightarrow> session \<Rightarrow> session" where
  "epo_write pkt st = st\<lparr>epo_written := epo_written st @ [pkt]\<rparr>"

definition send_packet :: "GipCmd \<Rightarrow> int list \<Rightarrow> session \<Rightarrow> session" where
  \<comment> \<open>\<open>epo.write(make_gip_packet(cmd, *args, seq=seq))\<close>\<close>
  "send_packet cmd args st =
     (let (pkt, seq') = make_gip_packet cmd args (seq st) in epo_write pkt (st\<lparr>seq := seq'\<rparr>))"

definition send_rumble :: "int \<Rightarrow> int \<Rightarrow> int \<Rightarrow> int \<Rightarrow> int \<Rightarrow> int \<Rightarrow> int \<Rightarrow> session \<Rightarrow> session" where
  \<comment> \<open>\<open>epo.write(make_gip_rumble_packet(lt, rt, la, ra, on=.., off=.., repeat=.., seq=seq))\<close>\<close>
  "send_rumble lt rt la ra on off repeat st =
     (let (pkt, seq') = make_gip_rumble_packet lt rt la ra (seq st) on off repeat
      in epo_write pkt (st\<lparr>seq := seq'\<rparr>))"

definition initial_vars :: session where
  \<comment> \<open>the variables as lines 189 and 197 to 200 set them, nothing written yet\<close>
  "initial_vars =
     \<lparr>store_buttons = [], store_system = ''sys'', store_numbers = [],
      store_rumble = [], exit_start = -1, seq = Seq_init, epo_written = []\<rparr>"

definition main_init :: "py_error + session" where
  \<comment> \<open>lines 189 to 203: the two initial commands and the initial decoded display\<close>
  "main_init =
     (let st = initial_vars;
          st = send_packet Power [0x00] st;
          st = send_packet LED [0x00, 0x01, 0x14] st
      in bind_err (parse_input (0x20 # replicate 40 0)) (\<lambda>(buttons, numbers, _).
         Inr (st\<lparr>store_buttons := buttons, store_numbers := numbers\<rparr>)))"

definition rumble_motors :: "axes \<Rightarrow> int list" where
  \<comment> \<open>\<open>[min(abs(v // 128), 255) for v in values[0:4]]\<close>\<close>
  "rumble_motors values =
     (case values of (lx, ly, rx, ry, lt, rt) \<Rightarrow>
        map (\<lambda>v. min \<bar>v div 128\<bar> 255) [lx, ly, rx, ry])"

definition rumble_on :: "axes \<Rightarrow> int" where
  \<comment> \<open>\<open>255 - min(values[4] // 4, 255)\<close>\<close>
  "rumble_on values = (case values of (lx, ly, rx, ry, lt, rt) \<Rightarrow> 255 - min (lt div 4) 255)"

definition rumble_off :: "axes \<Rightarrow> int" where
  \<comment> \<open>\<open>min(values[5] // 4, 255)\<close>\<close>
  "rumble_off values = (case values of (lx, ly, rx, ry, lt, rt) \<Rightarrow> min (rt div 4) 255)"

definition exit_logic :: "real \<Rightarrow> int list \<Rightarrow> session \<Rightarrow> session" where
  \<comment> \<open>lines 240 to 243; \<open>data[4]\<close> is read only behind the length test\<close>
  "exit_logic now data st =
     (if exit_start st < 0 \<and> length data \<ge> 5 \<and>
         ((data ! 4) AND 0x04 \<noteq> 0 \<or> (data ! 4) AND 0x08 \<noteq> 0)
      then st\<lparr>exit_start := now\<rparr>
      else st\<lparr>exit_start := -1\<rparr>)"

definition handle_input :: "real \<Rightarrow> int list \<Rightarrow> session \<Rightarrow> py_error + session" where
  \<comment> \<open>the branch \<open>data[0] == 0x20\<close>, lines 226 to 243\<close>
  "handle_input now data st =
     bind_err (parse_input data) (\<lambda>(inp, numbers, values).
       let st = st\<lparr>store_buttons := inp, store_numbers := numbers\<rparr> in
       case values of
         None \<Rightarrow> Inl TypeError
       | Some vals \<Rightarrow>
           (let rumble = rumble_motors vals;
                on = rumble_on vals;
                off = rumble_off vals;
                new_rumble = rumble @ [on, off];
                st = (if new_rumble \<noteq> store_rumble st
                      then (send_rumble (rumble ! 0) (rumble ! 1) (rumble ! 2) (rumble ! 3)
                              on off 0xff st)\<lparr>store_rumble := new_rumble\<rparr>
                      else st)
            in Inr (exit_logic now data st)))"

definition handle_system :: "int list \<Rightarrow> session \<Rightarrow> py_error + session" where
  \<comment> \<open>the branch \<open>data[0] == 0x07\<close>, lines 219 to 222\<close>
  "handle_system data st =
     bind_err (py_getitem data 4) (\<lambda>d4.
       if d4 = 1 then Inr (st\<lparr>store_system := active ''SYS''\<rparr>)
       else Inr (st\<lparr>store_system := ''sys''\<rparr>))"

fun loop_body :: "real \<Rightarrow> read_result \<Rightarrow> session \<Rightarrow> py_error + session" where
  "loop_body now USBTimeoutError st = Inr st"
| "loop_body now (Data data) st =
     bind_err (py_getitem data 0) (\<lambda>d0.
       if d0 = 0x03 then Inr st
       else if d0 = 0x07 then handle_system data st
       else if d0 = 0x20 then handle_input now data st
       else Inr st)"

definition loop_cond :: "real \<Rightarrow> session \<Rightarrow> bool" where
  \<comment> \<open>\<open>exit_start < 0 or time.time() - exit_start < 2.0\<close>\<close>
  "loop_cond now st = (exit_start st < 0 \<or> now - exit_start st < 2)"

definition drain :: "session \<Rightarrow> session" where
  \<comment> \<open>line 251, after the loop\<close>
  "drain st = send_rumble 0 0 0 0 0xff 0x00 0xff st"

text \<open>
  The loop over a finite trace of what the transport delivers. An entry
  \<open>(t, r, t')\<close> is one iteration: \<open>t\<close> is the clock when the loop condition is tested,
  \<open>r\<close> what \<open>epi.read\<close> then gives, \<open>t'\<close> the clock when the report is processed. The
  result says whether the loop was left (and the zero rumble packet written) within the
  trace.
\<close>

fun run_loop :: "(real \<times> read_result \<times> real) list \<Rightarrow> session \<Rightarrow> py_error + bool \<times> session" where
  "run_loop [] st = Inr (False, st)"
| "run_loop ((t, r, t') # es) st =
     (if loop_cond t st then bind_err (loop_body t' r st) (run_loop es)
      else Inr (True, drain st))"

text \<open>An INPUT report of 41 bytes in which only the SELECT bit (byte 4, bit 3) is set.\<close>

definition select_held_report :: "int list" where
  "select_held_report = [0x20, 0, 0, 0, 0x08] @ replicate 36 0"

section \<open>Reference definitions taken from the specification\<close>

text \<open>The little-endian two's-complement encoding of a 16-bit value, low byte first; the
  program has no encoder, the round-trip property is stated against this one.\<close>

definition spec_encode_s16le :: "int \<Rightarrow> int list" where
  "spec_encode_s16le v = [v mod 256, (v div 256) mod 256]"

text \<open>The specification's reading of the rumble derivation: each stick axis divided by
  128, each trigger axis divided by 4, every quotient clamped to the range 0 to 255.\<close>

definition spec_clamp_byte :: "int \<Rightarrow> int" where
  "spec_clamp_byte v = max 0 (min 255 v)"

definition spec_rumble :: "axes \<Rightarrow> int list \<times> int \<times> int" where
  "spec_rumble values =
     (case values of (lx, ly, rx, ry, lt, rt) \<Rightarrow>
        (map (\<lambda>v. spec_clamp_byte (v div 128)) [lx, ly, rx, ry],
         spec_clamp_byte (lt div 4), spec_clamp_byte (rt div 4)))"

section \<open>Auxiliary facts\<close>

lemma bind_err_Inr [simp]: "bind_err (Inr x) f = f x"
  by (simp add: bind_err_def)

lemma bind_err_Inl [simp]: "bind_err (Inl e) f = Inl e"
  by (simp add: bind_err_def)

lemma and_ff_mod: "(k::int) AND 0xff = k mod 256"
proof -
  have "k AND 0xff = k AND mask 8" by (simp add: mask_eq_exp_minus_1)
  also have "\<dots> = take_bit 8 k" by (simp add: take_bit_eq_mask)
  also have "\<dots> = k mod 256" by (simp add: take_bit_eq_mod)
  finally show ?thesis .
qed

text \<open>Reading \<open>value\<close> \<open>n\<close> times from a counter that holds \<open>m mod 256\<close>.\<close>

lemma Seq_value_calls_from:
  "Seq_value_calls n \<lparr>v_value = int m mod 256\<rparr> =
     (map (\<lambda>i. int i mod 256) [m..<m + n], \<lparr>v_value = int (m + n) mod 256\<rparr>)"
proof (induction n arbitrary: m)
  case 0
  then show ?case by simp
next
  case (Suc n)
  have step: "(int m mod 256 + 1) AND 0xff = int (Suc m) mod 256"
    by (simp add: and_ff_mod mod_simps add.commute)
  show ?case
    using Suc.IH [of "Suc m"]
    by (simp add: Seq_value_def step upt_rec [of m] del: upt_Suc)
qed

section \<open>The sequence counter\<close>

text \<open>
  C5. From a freshly constructed counter, \<open>n\<close> successive reads of \<open>value\<close> return
  \<open>0 mod 256, 1 mod 256, \<dots>, (n - 1) mod 256\<close> in this order: the \<open>k\<close>-th read returns
  \<open>(k - 1) mod 256\<close>, for every number of reads, and the counter then holds \<open>n mod 256\<close>.
\<close>

theorem Seq_value_sequence:
  "Seq_value_calls n Seq_init =
     (map (\<lambda>i. int i mod 256) [0..<n], \<lparr>v_value = int n mod 256\<rparr>)"
  using Seq_value_calls_from [of n 0] by (simp add: Seq_init_def)

text \<open>
  C9, as the claim states it, fails: after one read of \<open>value\<close> on a fresh counter, which
  returned 0, \<open>current_value\<close> is 1 and not the value last returned.
\<close>

theorem current_value_counterexample:
  "fst (Seq_value Seq_init) = 0 \<and> fst (Seq_current_value (snd (Seq_value Seq_init))) = 1"
  by (simp add: Seq_value_def Seq_init_def Seq_current_value_def)

text \<open>
  C9, amended. \<open>current_value\<close> leaves the counter as it is and returns the value that the
  next read of \<open>value\<close> will return: after \<open>n\<close> reads of \<open>value\<close> on a fresh counter it is
  \<open>n mod 256\<close> (so 0 before any read, and the last returned value plus one, modulo 256,
  afterwards).
\<close>

theorem current_value_is_next_to_issue:
  "snd (Seq_current_value s) = s
   \<and> fst (Seq_current_value s) = fst (Seq_value s)
   \<and> fst (Seq_current_value (snd (Seq_value_calls n Seq_init))) = int n mod 256"
  using Seq_value_calls_from [of n 0]
  by (simp add: Seq_current_value_def Seq_value_def Seq_init_def)

section \<open>Packet framing\<close>

text \<open>
  C6. \<open>make_gip_packet\<close> gives \<open>[cmd, 0x20, seq, len(args)]\<close> followed by the arguments, and
  \<open>make_gip_rumble_packet\<close> gives the 13 bytes
  \<open>[0x09, 0x00, seq, 9, 0x00, 0x0f, lt, rt, ls, rs, on, off, repeat]\<close>, where \<open>seq\<close> is what
  the counter's \<open>value\<close> returns; in both, the entry at index 3 is the length of the packet
  minus 4.
\<close>

theorem packet_layout_and_length:
  "make_gip_packet cmd args sq =
     ([GipCmd_value cmd, 0x20, fst (Seq_value sq), int (length args)] @ args, snd (Seq_value sq))
   \<and> fst (make_gip_packet cmd args sq) ! 3 = int (length (fst (make_gip_packet cmd args sq))) - 4
   \<and> make_gip_rumble_packet lt rt ls rs sq on off rep =
     ([0x09, 0x00, fst (Seq_value sq), 9, 0x00, 0x0f, lt, rt, ls, rs, on, off, rep],
      snd (Seq_value sq))
   \<and> length (fst (make_gip_rumble_packet lt rt ls rs sq on off rep)) = 13
   \<and> fst (make_gip_rumble_packet lt rt ls rs sq on off rep) ! 3 =
       int (length (fst (make_gip_rumble_packet lt rt ls rs sq on off rep))) - 4"
  by (simp add: make_gip_packet_def make_gip_rumble_packet_def Seq_int_def GIP_MOTOR_ALL_def
      split_beta Let_def)

section \<open>Bit access\<close>

text \<open>
  C1 does not hold of the code: the guard of \<open>get_bit\<close> is \<open>byte > len(array)\<close>, so the
  index equal to the length passes it and the read \<open>array[byte]\<close> raises IndexError, for
  every buffer (the empty one included) and every bit number.
\<close>

theorem get_bit_index_eq_length_raises:
  "get_bit array (int (length array)) bitno = Inl IndexError"
  by (simp add: get_bit_def py_getitem_def)

section \<open>Decoding a report\<close>

text \<open>
  C10. On a non-empty buffer whose first byte is not \<open>0x20\<close>, \<open>parse_input\<close> returns the
  empty button list, the empty numeric list and no axis tuple, whatever follows.
\<close>

theorem parse_input_not_input_report:
  "data \<noteq> [] \<Longrightarrow> hd data \<noteq> 0x20 \<Longrightarrow> parse_input data = Inr ([], [], None)"
  by (cases data) (simp_all add: parse_input_def py_getitem_def)

theorem parse_input_not_input_report_witness:
  "[0x07, 1, 2, 3 :: int] \<noteq> [] \<and> hd [0x07, 1, 2, 3 :: int] \<noteq> 0x20
   \<and> parse_input [0x07, 1, 2, 3] = Inr ([], [], None)"
  using parse_input_not_input_report [of "[0x07, 1, 2, 3]"] by simp

section \<open>Signed 16-bit decoding\<close>

text \<open>\<open>to_signed_16\<close> is sign extension from bit 15.\<close>

lemma and_exp_cases: "(m::int) AND 2 ^ k = (if bit m k then 2 ^ k else 0)"
  by (rule bit_eqI) (auto simp add: bit_simps)

lemma to_signed_16_eq: "to_signed_16 n = signed_take_bit 15 n"
proof -
  have m: "(0xffff::int) = mask 16" and e: "(0x8000::int) = 2 ^ 15"
    by (simp_all add: mask_eq_exp_minus_1)
  have "to_signed_16 n = take_bit 16 n OR (- (take_bit 16 n AND 2 ^ 15))"
    unfolding to_signed_16_def Let_def m e by (simp add: take_bit_eq_mask)
  also have "\<dots> = signed_take_bit 15 n"
  proof (cases "bit n 15")
    case True
    then have "bit (take_bit 16 n) 15"
      by (simp add: bit_simps)
    then have "take_bit 16 n AND 2 ^ 15 = 2 ^ 15"
      by (simp only: and_exp_cases if_True)
    then show ?thesis using True
      by (simp only: minus_exp_eq_not_mask) (rule bit_eqI, auto simp add: bit_simps)
  next
    case False
    then have "\<not> bit (take_bit 16 n) 15"
      by (simp add: bit_simps)
    then have z: "take_bit 16 n AND 2 ^ 15 = 0"
      by (simp only: and_exp_cases if_False)
    have "take_bit 16 n OR (- (take_bit 16 n AND 2 ^ 15)) = take_bit 16 n"
      by (simp only: z) simp
    also have "\<dots> = take_bit 15 n"
      using False take_bit_Suc_from_most [of 15 n] by simp
    also have "\<dots> = signed_take_bit 15 n"
      using False by (simp add: signed_take_bit_eq_if_positive)
    finally show ?thesis .
  qed
  finally show ?thesis .
qed

lemma le16_pair: "le16 [lo, hi] = Inr (to_signed_16 (lo OR push_bit 8 hi))"
  by (simp add: le16_def py_getitem_def py_lshift_def)

lemma encode_bits:
  "(v mod 256) OR push_bit 8 ((v div 256) mod 256) = take_bit 16 (v::int)"
proof -
  have "v mod 256 = take_bit 8 v" by (simp add: take_bit_eq_mod)
  moreover have "(v div 256) mod 256 = take_bit 8 (drop_bit 8 v)"
    by (simp add: take_bit_eq_mod drop_bit_eq_div)
  moreover have "take_bit 8 v OR push_bit 8 (take_bit 8 (drop_bit 8 v)) = take_bit 16 v"
    by (rule bit_eqI) (auto simp add: bit_simps)
  ultimately show ?thesis by simp
qed

lemma le16_roundtrip:
  assumes "- 32768 \<le> v" "v \<le> 32767"
  shows "le16 (spec_encode_s16le v) = Inr v"
proof -
  have "signed_take_bit 15 (take_bit 16 v) = signed_take_bit 15 v"
    by (rule bit_eqI) (auto simp add: bit_simps)
  also have "\<dots> = v"
    using assms by (intro signed_take_bit_int_eq_self) simp_all
  finally show ?thesis
    by (simp add: spec_encode_s16le_def le16_pair encode_bits to_signed_16_eq)
qed

lemma byte_pair_bounds:
  fixes lo hi :: int
  assumes "0 \<le> lo" "lo < 256" "0 \<le> hi" "hi < 256"
  shows "0 \<le> lo OR push_bit 8 hi" "lo OR push_bit 8 hi < 65536"
proof -
  show "0 \<le> lo OR push_bit 8 hi" using assms by simp
  have "lo < 2 ^ 16" using assms by simp
  moreover have "push_bit 8 hi < 2 ^ 16" using assms by (simp add: push_bit_eq_mult)
  moreover have "0 \<le> push_bit 8 hi" using assms by simp
  ultimately have "lo OR push_bit 8 hi < 2 ^ 16"
    using assms(1) by (intro OR_upper) simp_all
  then show "lo OR push_bit 8 hi < 65536" by simp
qed

lemma signed_16_of_unsigned:
  assumes "0 \<le> u" "u < 65536"
  shows "to_signed_16 u = (if u < 0x8000 then u else u - 0x10000)"
proof -
  have t: "take_bit 16 u = u" using assms by (simp add: take_bit_int_eq_self)
  have "u div 32768 = 0 \<or> u div 32768 = 1" using assms by linarith
  then have b: "bit u 15 \<longleftrightarrow> \<not> u < 32768"
    using assms by (auto simp add: bit_iff_odd)
  show ?thesis
    by (simp add: to_signed_16_eq signed_take_bit_eq_take_bit_minus t b)
qed

text \<open>
  C4. For every \<open>v\<close> from \<open>-32768\<close> to \<open>32767\<close>, \<open>le16\<close> of the two bytes of its
  little-endian two's-complement encoding is \<open>v\<close>; for every pair of bytes \<open>(lo, hi)\<close>
  the result is \<open>lo | (hi << 8)\<close> when this is below \<open>0x8000\<close> and that value minus
  \<open>0x10000\<close> otherwise; \<open>0x7fff\<close> decodes to \<open>32767\<close> and \<open>0x8000\<close> to \<open>-32768\<close>.
\<close>

theorem le16_decodes_signed_16:
  "(- 32768 \<le> v \<and> v \<le> 32767 \<longrightarrow> le16 (spec_encode_s16le v) = Inr v)
   \<and> (0 \<le> lo \<and> lo < 256 \<and> 0 \<le> hi \<and> hi < 256 \<longrightarrow>
        le16 [lo, hi] =
          Inr (if lo OR push_bit 8 hi < 0x8000 then lo OR push_bit 8 hi
               else (lo OR push_bit 8 hi) - 0x10000))
   \<and> le16 [0xff, 0x7f] = Inr 32767 \<and> le16 [0x00, 0x80] = Inr (- 32768)"
proof (intro conjI impI)
  assume "- 32768 \<le> v \<and> v \<le> 32767"
  then show "le16 (spec_encode_s16le v) = Inr v" by (simp add: le16_roundtrip)
next
  assume "0 \<le> lo \<and> lo < 256 \<and> 0 \<le> hi \<and> hi < 256"
  then have "0 \<le> lo OR push_bit 8 hi" "lo OR push_bit 8 hi < 65536"
    by (simp_all add: byte_pair_bounds)
  then show "le16 [lo, hi] =
          Inr (if lo OR push_bit 8 hi < 0x8000 then lo OR push_bit 8 hi
               else (lo OR push_bit 8 hi) - 0x10000)"
    by (simp only: le16_pair signed_16_of_unsigned)
next
  show "le16 [0xff, 0x7f] = Inr 32767"
    using le16_roundtrip [of 32767] by (simp add: spec_encode_s16le_def)
  show "le16 [0x00, 0x80] = Inr (- 32768)"
    using le16_roundtrip [of "- 32768"] by (simp add: spec_encode_s16le_def)
qed

theorem le16_decodes_signed_16_witness:
  "(- 32768 \<le> (- 2 :: int) \<and> (- 2 :: int) \<le> 32767)
   \<and> spec_encode_s16le (- 2) = [0xfe, 0xff] \<and> le16 (spec_encode_s16le (- 2)) = Inr (- 2)
   \<and> (0 \<le> (0x34 :: int) \<and> (0x34 :: int) < 256 \<and> 0 \<le> (0x92 :: int) \<and> (0x92 :: int) < 256)
   \<and> le16 [0x34, 0x92] = Inr (- 28108)"
  using le16_decodes_signed_16 [of "- 2" "0x34" "0x92"]
  by (simp add: spec_encode_s16le_def)

section \<open>The rumble command derived from an INPUT report\<close>

lemma exit_logic_keeps:
  "epo_written (exit_logic now data st) = epo_written st"
  "store_rumble (exit_logic now data st) = store_rumble st"
  "store_system (exit_logic now data st) = store_system st"
  "seq (exit_logic now data st) = seq st"
  by (simp_all add: exit_logic_def)

lemma send_rumble_eq:
  "send_rumble a b c d on off rep st =
     st\<lparr>seq := snd (Seq_value (seq st)),
        epo_written := epo_written st @
          [[0x09, 0x00, v_value (seq st), 9, 0x00, 0x0f, a, b, c, d, on, off, rep]]\<rparr>"
  by (simp add: send_rumble_def make_gip_rumble_packet_def Seq_int_def Seq_value_def
      epo_write_def GIP_MOTOR_ALL_def Let_def)

lemma rumble_motors_nth:
  "rumble_motors vals =
     [rumble_motors vals ! 0, rumble_motors vals ! 1, rumble_motors vals ! 2, rumble_motors vals ! 3]"
  by (cases vals) (simp add: rumble_motors_def)

lemma handle_input_rumble_packet:
  assumes p: "parse_input data = Inr (inp, numbers, Some vals)"
    and n: "rumble_motors vals @ [rumble_on vals, rumble_off vals] \<noteq> store_rumble st"
  shows "\<exists>st'. handle_input now data st = Inr st' \<and>
           epo_written st' = epo_written st @
             [[0x09, 0x00, v_value (seq st), 9, 0x00, 0x0f] @ rumble_motors vals @
              [rumble_on vals, rumble_off vals, 0xff]]
           \<and> store_rumble st' = rumble_motors vals @ [rumble_on vals, rumble_off vals]"
proof -
  let ?st1 = "st\<lparr>store_buttons := inp, store_numbers := numbers\<rparr>"
  let ?new = "rumble_motors vals @ [rumble_on vals, rumble_off vals]"
  let ?st2 = "(send_rumble (rumble_motors vals ! 0) (rumble_motors vals ! 1)
                (rumble_motors vals ! 2) (rumble_motors vals ! 3)
                (rumble_on vals) (rumble_off vals) 0xff ?st1)\<lparr>store_rumble := ?new\<rparr>"
  have h: "handle_input now data st = Inr (exit_logic now data ?st2)"
    using n by (simp add: handle_input_def p Let_def)
  have w: "epo_written ?st2 = epo_written st @
             [[0x09, 0x00, v_value (seq st), 9, 0x00, 0x0f] @ rumble_motors vals @
              [rumble_on vals, rumble_off vals, 0xff]]"
    by (subst (3) rumble_motors_nth) (simp add: send_rumble_eq)
  show ?thesis
    unfolding h using w by (simp add: exit_logic_keeps)
qed

text \<open>
  C7, as the claim states it, fails: for the axes \<open>(-128, 0, 0, 0, 0, 0)\<close> the code derives
  the motor intensities \<open>[1, 0, 0, 0]\<close> and the on duration 255, whereas dividing and
  clamping gives \<open>[0, 0, 0, 0]\<close> and 0.
\<close>

theorem rumble_not_divide_and_clamp:
  "(rumble_motors (- 128, 0, 0, 0, 0, 0), rumble_on (- 128, 0, 0, 0, 0, 0),
    rumble_off (- 128, 0, 0, 0, 0, 0)) = ([1, 0, 0, 0], 255, 0)
   \<and> spec_rumble (- 128, 0, 0, 0, 0, 0) = ([0, 0, 0, 0], 0, 0)
   \<and> (rumble_motors (- 128, 0, 0, 0, 0, 0), rumble_on (- 128, 0, 0, 0, 0, 0),
    rumble_off (- 128, 0, 0, 0, 0, 0)) \<noteq> spec_rumble (- 128, 0, 0, 0, 0, 0)"
  by (simp add: rumble_motors_def rumble_on_def rumble_off_def spec_rumble_def spec_clamp_byte_def)

text \<open>
  C7, amended. Each motor intensity is the magnitude of the stick axis divided by 128
  (floor division), clamped to 0 to 255, hence within 0 to 255. For a trigger axis that is
  not negative, the on duration is 255 minus the left trigger divided by 4 and clamped, the
  off duration is the right trigger divided by 4 and clamped, and both are within 0 to 255.
\<close>

theorem rumble_derivation:
  "rumble_motors (lx, ly, rx, ry, lt, rt) =
     map (\<lambda>v. spec_clamp_byte \<bar>v div 128\<bar>) [lx, ly, rx, ry]
   \<and> (\<forall>m \<in> set (rumble_motors (lx, ly, rx, ry, lt, rt)). 0 \<le> m \<and> m \<le> 255)
   \<and> (0 \<le> lt \<longrightarrow> rumble_on (lx, ly, rx, ry, lt, rt) = 255 - spec_clamp_byte (lt div 4)
        \<and> 0 \<le> rumble_on (lx, ly, rx, ry, lt, rt) \<and> rumble_on (lx, ly, rx, ry, lt, rt) \<le> 255)
   \<and> (0 \<le> rt \<longrightarrow> rumble_off (lx, ly, rx, ry, lt, rt) = spec_clamp_byte (rt div 4)
        \<and> 0 \<le> rumble_off (lx, ly, rx, ry, lt, rt) \<and> rumble_off (lx, ly, rx, ry, lt, rt) \<le> 255)"
proof -
  have m: "min \<bar>v div 128\<bar> 255 = spec_clamp_byte \<bar>v div 128\<bar>" for v :: int
    by (simp add: spec_clamp_byte_def min.commute)
  have b: "0 \<le> spec_clamp_byte v \<and> spec_clamp_byte v \<le> 255" for v
    by (simp add: spec_clamp_byte_def)
  have c: "min (v div 4) 255 = spec_clamp_byte (v div 4)" if "0 \<le> v" for v :: int
  proof -
    from that have "0 \<le> v div 4" by simp
    then show ?thesis by (simp add: spec_clamp_byte_def min.commute)
  qed
  show ?thesis
    using b [of "lt div 4"] b [of "rt div 4"]
    by (simp add: rumble_motors_def rumble_on_def rumble_off_def m c b)
qed

theorem rumble_derivation_witness:
  "rumble_motors (- 300, 32767, - 32768, 127, 1023, 400) = [3, 255, 255, 0]
   \<and> (0 \<le> (1023 :: int) \<and> rumble_on (- 300, 32767, - 32768, 127, 1023, 400) = 0)
   \<and> (0 \<le> (400 :: int) \<and> rumble_off (- 300, 32767, - 32768, 127, 1023, 400) = 100)"
  using rumble_derivation [of "- 300" 32767 "- 32768" 127 1023 400]
  by (simp add: spec_clamp_byte_def)

section \<open>Reads within and beyond a buffer\<close>

lemma py_getitem_in_range:
  "0 \<le> i \<Longrightarrow> i < int (length xs) \<Longrightarrow> py_getitem xs i = Inr (xs ! nat i)"
  by (simp add: py_getitem_def)

lemma py_getitem_beyond:
  "int (length xs) \<le> i \<Longrightarrow> py_getitem xs i = Inl IndexError"
  by (simp add: py_getitem_def)

lemma py_getitem_first:
  "data \<noteq> [] \<Longrightarrow> py_getitem data 0 = Inr (hd data)"
  by (cases data) (simp_all add: py_getitem_def)

section \<open>SYSTEM reports\<close>

text \<open>
  C8, as the claim states it, fails: a SYSTEM report whose byte at offset 4 is 2, which is
  not zero, sets the indicator to the inactive string; and a SYSTEM report of fewer than
  five bytes raises IndexError.
\<close>

theorem system_indicator_counterexample:
  "loop_body 0 (Data [0x07, 0, 0, 0, 2]) (initial_vars\<lparr>store_system := active ''SYS''\<rparr>)
     = Inr (initial_vars\<lparr>store_system := ''sys''\<rparr>)
   \<and> [0x07, 0, 0, 0, 2 :: int] ! 4 \<noteq> 0
   \<and> loop_body 0 (Data [0x07]) initial_vars = Inl IndexError"
  by (simp add: py_getitem_def handle_system_def initial_vars_def)

text \<open>
  C8, amended. For a report of at least five bytes whose first byte is \<open>0x07\<close>, the
  indicator is set to the active string exactly when the byte at offset 4 equals 1, and
  to the inactive string for every other value; the two strings differ.
\<close>

theorem system_indicator_active_iff_one:
  assumes "5 \<le> length data" and "hd data = 0x07"
  shows "loop_body now (Data data) st =
           Inr (st\<lparr>store_system := (if data ! 4 = 1 then active ''SYS'' else ''sys'')\<rparr>)
         \<and> active ''SYS'' \<noteq> ''sys''"
proof -
  from assms have "data \<noteq> []" by auto
  then have a: "py_getitem data 0 = Inr 0x07"
    using assms by (simp add: py_getitem_first)
  have b: "py_getitem data 4 = Inr (data ! 4)"
    using assms py_getitem_in_range [of 4 data] by simp
  show ?thesis
    by (simp add: a b handle_system_def active_def)
qed

theorem system_indicator_active_iff_one_witness:
  "5 \<le> length [0x07, 0, 0, 0, 1 :: int] \<and> hd [0x07, 0, 0, 0, 1 :: int] = 0x07
   \<and> loop_body 0 (Data [0x07, 0, 0, 0, 1]) initial_vars
       = Inr (initial_vars\<lparr>store_system := active ''SYS''\<rparr>)"
  using system_indicator_active_iff_one [of "[0x07, 0, 0, 0, 1]" 0 initial_vars]
  by simp

section \<open>Which buffers parse_input accepts\<close>

lemma get_bit_in_range:
  "0 \<le> byte \<Longrightarrow> byte < int (length array) \<Longrightarrow> 0 \<le> bitno \<Longrightarrow>
   get_bit array byte bitno = Inr (array ! nat byte AND push_bit (nat bitno) 1 > 0)"
  by (simp add: get_bit_def py_getitem_in_range py_lshift_def)

lemma add_bit_in_range:
  "0 \<le> byte \<Longrightarrow> byte < int (length data) \<Longrightarrow> 0 \<le> bitno \<Longrightarrow>
   add_bit state name data byte bitno =
     Inr (add_if state name (data ! nat byte AND push_bit (nat bitno) 1 > 0))"
  by (simp add: add_bit_def get_bit_in_range)

lemma parse_buttons_total:
  assumes "23 \<le> length data"
  shows "\<exists>state. parse_buttons data = Inr state"
  using assms by (simp add: parse_buttons_def add_bit_in_range)

lemma le16_drop_in_range:
  assumes "k + 2 \<le> length data"
  shows "le16 (drop k data) = Inr (to_signed_16 (data ! k OR push_bit 8 (data ! Suc k)))"
proof -
  have "py_getitem (drop k data) 0 = Inr (data ! k)"
    using assms py_getitem_in_range [of 0 "drop k data"] by simp
  moreover have "py_getitem (drop k data) 1 = Inr (data ! Suc k)"
    using assms py_getitem_in_range [of 1 "drop k data"] by simp
  ultimately show ?thesis
    by (simp add: le16_def py_lshift_def)
qed

lemma add_le16_in_range:
  "k + 2 \<le> length data \<Longrightarrow>
   add_le16 numbers prefix data k =
     Inr (add_val numbers (format_p05x prefix)
            (to_signed_16 (data ! k OR push_bit 8 (data ! Suc k))))"
  by (simp add: add_le16_def le16_drop_in_range)

lemma parse_numbers_total:
  assumes "35 \<le> length data"
  shows "\<exists>r. parse_numbers data = Inr r"
proof -
  have "py_getitem data 34 = Inr (data ! 34)"
    using assms py_getitem_in_range [of 34 data] by simp
  then show ?thesis
    using assms by (simp add: parse_numbers_def add_le16_in_range add_val_def)
qed

lemma parse_numbers_short:
  assumes "length data < 35"
  shows "parse_numbers data = Inl IndexError"
proof -
  have "py_getitem data 34 = Inl IndexError"
    using assms by (intro py_getitem_beyond) simp
  then show ?thesis by (simp add: parse_numbers_def)
qed

text \<open>
  C2, as the claim states it, fails: on the one-byte INPUT report \<open>[0x20]\<close> the bit reads
  are skipped by the guard of \<open>get_bit\<close>, and the unguarded read \<open>data[34]\<close> raises
  IndexError.
\<close>

theorem parse_input_short_input_report_raises: "parse_input [0x20] = Inl IndexError"
  by (simp add: parse_input_def parse_buttons_def parse_numbers_def add_bit_def get_bit_def
      py_getitem_def add_if_def)

text \<open>
  C2, amended. \<open>parse_input\<close> raises no exception exactly on the non-empty buffers whose
  first byte is not \<open>0x20\<close> and on the buffers of at least 35 bytes; on the empty buffer
  and on an INPUT report shorter than 35 bytes it raises.
\<close>

theorem parse_input_returns_iff:
  "\<not> isl (parse_input data) \<longleftrightarrow> data \<noteq> [] \<and> (hd data \<noteq> 0x20 \<or> 35 \<le> length data)"
proof (cases "data = []")
  case True
  then show ?thesis by (simp add: parse_input_def py_getitem_def)
next
  case ne: False
  then have f: "py_getitem data 0 = Inr (hd data)" by (rule py_getitem_first)
  show ?thesis
  proof (cases "hd data = 0x20")
    case False
    then show ?thesis using ne by (simp add: parse_input_def f)
  next
    case inp: True
    show ?thesis
    proof (cases "35 \<le> length data")
      case True
      then obtain state r where "parse_buttons data = Inr state" "parse_numbers data = Inr r"
        using parse_buttons_total [of data] parse_numbers_total [of data] by auto
      then show ?thesis using ne inp True
        by (simp add: parse_input_def f split_beta)
    next
      case False
      then have "parse_numbers data = Inl IndexError"
        by (intro parse_numbers_short) simp
      then show ?thesis using ne inp False
        by (cases "parse_buttons data") (simp_all add: parse_input_def f)
    qed
  qed
qed

theorem parse_input_returns_iff_witness:
  "\<not> isl (parse_input (0x20 # replicate 34 7))
   \<and> (0x20 # replicate 34 (7 :: int) \<noteq> [] \<and> 35 \<le> length (0x20 # replicate 34 (7 :: int)))"
  using parse_input_returns_iff [of "0x20 # replicate 34 7"] by simp

section \<open>The hold-to-exit gesture\<close>

text \<open>The \<open>else\<close> of the exit logic is taken whenever the timer is already running,
  whatever the buttons: an INPUT report that arrives while the timer runs cancels it.\<close>

lemma exit_logic_running_timer_is_cancelled:
  "0 \<le> exit_start st \<Longrightarrow> exit_start (exit_logic now data st) = - 1"
  by (simp add: exit_logic_def)

lemma handle_input_exit:
  assumes "handle_input now data st = Inr st'"
  shows "exit_start st' =
          (if exit_start st < 0 \<and> 5 \<le> length data \<and>
              ((data ! 4) AND 0x04 \<noteq> 0 \<or> (data ! 4) AND 0x08 \<noteq> 0)
           then now else - 1)"
  using assms
  by (auto simp add: handle_input_def bind_err_def exit_logic_def Let_def send_rumble_def
      epo_write_def split_beta
      split: sum.splits option.splits if_splits)

text \<open>
  C3 does not hold of the code. With the timer running since 100, an INPUT report at 101 in
  which SELECT is still set resets \<open>exit_start\<close> to \<open>-1\<close>. Over a trace in which every
  report from 100 to 102 has SELECT set, the timer is started, cancelled and started again,
  and the loop is still running at 103, three seconds into the hold. The loop is left
  after two seconds only when no INPUT report arrives in between.
\<close>

theorem hold_timer_cancelled_while_select_held:
  "map_sum id exit_start
     (loop_body 101 (Data select_held_report) (initial_vars\<lparr>exit_start := 100\<rparr>)) = Inr (- 1)
   \<and> map_sum id (\<lambda>(left, st). (left, exit_start st))
       (run_loop [(100, Data select_held_report, 100), (101, Data select_held_report, 101),
                  (102, Data select_held_report, 102), (103, USBTimeoutError, 103)]
          initial_vars) = Inr (False, 102)
   \<and> map_sum id fst
       (run_loop [(100, Data select_held_report, 100), (101, USBTimeoutError, 101),
                  (102, USBTimeoutError, 102)]
          initial_vars) = Inr True"
  by code_simp

end
